theory Spec2Isabelle
  imports Main "HOL-Library.Word"
begin

unbundle bit_operations_syntax

section \<open>Documents\<close>

text \<open>
  The values that \<^verbatim>\<open>json.loads\<close> and \<^verbatim>\<open>response.json()\<close> produce, and that
  \<^verbatim>\<open>json_compaction\<close> walks: \<^verbatim>\<open>None\<close>, \<^verbatim>\<open>bool\<close>, \<^verbatim>\<open>int\<close> (unbounded),
  \<^verbatim>\<open>float\<close>, \<^verbatim>\<open>str\<close>, \<^verbatim>\<open>list\<close> and \<^verbatim>\<open>dict\<close> with string keys.
  A \<^verbatim>\<open>dict\<close> keeps insertion order, so it is an association list, in insertion order;
  a Python dict has each key once (\<open>wf_json\<close> below).
  A \<^verbatim>\<open>float\<close> is its IEEE-754 binary64 bit pattern: the program only ever compares
  floats with zero, and a float equals zero exactly when it is \<open>+0.0\<close> or \<open>-0.0\<close>.
\<close>

datatype json =
    JNull
  | JBool bool
  | JInt int
  | JFloat "64 word"
  | JStr string
  | JList "json list"
  | JDict "(string \<times> json) list"

fun wf_json :: "json \<Rightarrow> bool" where
  "wf_json (JDict kvs) = (distinct (map fst kvs) \<and> (\<forall>kv \<in> set kvs. wf_json (snd kv)))"
| "wf_json (JList xs) = (\<forall>x \<in> set xs. wf_json x)"
| "wf_json v = True"

section \<open>Python equality with the literals of the sentinel lists\<close>

text \<open>
  \<^verbatim>\<open>v in [a, b, ...]\<close> is true when \<^verbatim>\<open>v == a\<close> or \<^verbatim>\<open>v == b\<close> ... Python compares
  numbers by value across \<^verbatim>\<open>bool\<close>, \<^verbatim>\<open>int\<close> and \<^verbatim>\<open>float\<close> (\<^verbatim>\<open>bool\<close> is a subclass of
  \<^verbatim>\<open>int\<close>, \<^verbatim>\<open>False == 0\<close> and \<^verbatim>\<open>True == 1\<close>), and values of different kinds
  (a string and a list, a number and \<^verbatim>\<open>None\<close>) are never equal.
\<close>

definition float_is_zero :: "64 word \<Rightarrow> bool" where
  "float_is_zero w = (w = 0 \<or> w = 0x8000000000000000)"

fun eq_int_zero :: "json \<Rightarrow> bool" where
  \<comment> \<open>\<^verbatim>\<open>v == 0\<close>\<close>
  "eq_int_zero (JInt i) = (i = 0)"
| "eq_int_zero (JFloat w) = float_is_zero w"
| "eq_int_zero (JBool b) = (\<not> b)"
| "eq_int_zero v = False"

fun eq_float_zero :: "json \<Rightarrow> bool" where
  \<comment> \<open>\<^verbatim>\<open>v == 0.0\<close>\<close>
  "eq_float_zero (JInt i) = (i = 0)"
| "eq_float_zero (JFloat w) = float_is_zero w"
| "eq_float_zero (JBool b) = (\<not> b)"
| "eq_float_zero v = False"

fun eq_empty_str :: "json \<Rightarrow> bool" where
  \<comment> \<open>\<^verbatim>\<open>v == ""\<close>\<close>
  "eq_empty_str (JStr s) = (s = [])"
| "eq_empty_str v = False"

fun eq_empty_list :: "json \<Rightarrow> bool" where
  \<comment> \<open>\<^verbatim>\<open>v == []\<close>\<close>
  "eq_empty_list (JList xs) = (xs = [])"
| "eq_empty_list v = False"

fun eq_empty_dict :: "json \<Rightarrow> bool" where
  \<comment> \<open>\<^verbatim>\<open>v == {}\<close>\<close>
  "eq_empty_dict (JDict kvs) = (kvs = [])"
| "eq_empty_dict v = False"

fun eq_none :: "json \<Rightarrow> bool" where
  \<comment> \<open>\<^verbatim>\<open>v == None\<close>\<close>
  "eq_none JNull = True"
| "eq_none v = False"

definition in_dict_sentinels :: "json \<Rightarrow> bool" where
  \<comment> \<open>\<^verbatim>\<open>v in [0, 0.0, "", [], {}, None]\<close>\<close>
  "in_dict_sentinels v =
     (eq_int_zero v \<or> eq_float_zero v \<or> eq_empty_str v \<or> eq_empty_list v
      \<or> eq_empty_dict v \<or> eq_none v)"

definition in_list_sentinels :: "json \<Rightarrow> bool" where
  \<comment> \<open>\<^verbatim>\<open>item in [0.0, {}, [], None]\<close>\<close>
  "in_list_sentinels item =
     (eq_float_zero item \<or> eq_empty_dict item \<or> eq_empty_list item \<or> eq_none item)"

section \<open>SparkEnvironment.json_compaction\<close>

text \<open>
  The \<^verbatim>\<open>for\<close> loop of the list branch: it reaches its \<^verbatim>\<open>return\<close> at the first item that
  is not in the list \<^verbatim>\<open>[0.0, {}, [], None]\<close>, and falls through to \<^verbatim>\<open>return []\<close> when
  there is none.
\<close>

fun scan :: "json list \<Rightarrow> bool" where
  "scan [] = False"
| "scan (item # rest) = (if \<not> in_list_sentinels item then True else scan rest)"

text \<open>
  The dict branch is the comprehension
  \<^verbatim>\<open>{k: self.json_compaction(v) for k, v in json_data.items() if v not in [...]}\<close>:
  the items in order, those that pass the test on \<^verbatim>\<open>v\<close> itself, each with its value
  compacted. The function does not read \<^verbatim>\<open>self\<close>.
\<close>

fun json_compaction :: "json \<Rightarrow> json" where
  "json_compaction (JDict kvs) =
     JDict (map (\<lambda>kv. (fst kv, json_compaction (snd kv)))
              (filter (\<lambda>kv. \<not> in_dict_sentinels (snd kv)) kvs))"
| "json_compaction (JList xs) =
     (if scan xs then JList (map json_compaction xs) else JList [])"
| "json_compaction v = v"

text \<open>
  \<open>settled d\<close>, used to state what compaction leaves alone: no mapping in \<open>d\<close> holds a
  value that is in the list \<^verbatim>\<open>[0, 0.0, "", [], {}, None]\<close>, and every non-empty sequence in
  \<open>d\<close> has an element that is not in \<^verbatim>\<open>[0.0, {}, [], None]\<close>.
\<close>

fun settled :: "json \<Rightarrow> bool" where
  "settled (JDict kvs) = (\<forall>kv \<in> set kvs. \<not> in_dict_sentinels (snd kv) \<and> settled (snd kv))"
| "settled (JList xs) = ((xs = [] \<or> scan xs) \<and> (\<forall>x \<in> set xs. settled x))"
| "settled v = True"

subsection \<open>The sentinel sets as the specification reads them\<close>

text \<open>
  The specification names the sentinels \<open>{0, 0.0, "", empty-sequence, empty-mapping, absent}\<close>
  for a mapping and \<open>{0.0, empty-mapping, empty-sequence, absent}\<close> for a sequence, and says
  that the boolean \<^verbatim>\<open>False\<close> is not among them. Its example \<^verbatim>\<open>[0, 0.0, None]\<close> counts the
  integer zero as the numeric sentinel of a sequence. The next predicates follow these
  words, not the code: a number is a sentinel when it is zero, a boolean never is.
  \<open>spec_sentinel_free d\<close>: neither \<open>d\<close> nor any mapping value or sequence element inside it
  is a sentinel in this sense. \<open>False_inside d\<close>: some mapping value or sequence element
  inside \<open>d\<close> is \<^verbatim>\<open>False\<close>.
\<close>

fun spec_dict_sentinel :: "json \<Rightarrow> bool" where
  "spec_dict_sentinel JNull = True"
| "spec_dict_sentinel (JBool b) = False"
| "spec_dict_sentinel (JInt i) = (i = 0)"
| "spec_dict_sentinel (JFloat w) = float_is_zero w"
| "spec_dict_sentinel (JStr s) = (s = [])"
| "spec_dict_sentinel (JList xs) = (xs = [])"
| "spec_dict_sentinel (JDict kvs) = (kvs = [])"

fun spec_list_sentinel :: "json \<Rightarrow> bool" where
  "spec_list_sentinel JNull = True"
| "spec_list_sentinel (JBool b) = False"
| "spec_list_sentinel (JInt i) = (i = 0)"
| "spec_list_sentinel (JFloat w) = float_is_zero w"
| "spec_list_sentinel (JStr s) = False"
| "spec_list_sentinel (JList xs) = (xs = [])"
| "spec_list_sentinel (JDict kvs) = (kvs = [])"

fun spec_sentinel_free :: "json \<Rightarrow> bool" where
  "spec_sentinel_free (JDict kvs) =
     (\<not> spec_dict_sentinel (JDict kvs) \<and> (\<forall>kv \<in> set kvs. spec_sentinel_free (snd kv)))"
| "spec_sentinel_free (JList xs) =
     (\<not> spec_dict_sentinel (JList xs) \<and> (\<forall>x \<in> set xs. spec_sentinel_free x))"
| "spec_sentinel_free v = (\<not> spec_dict_sentinel v)"

fun False_inside :: "json \<Rightarrow> bool" where
  "False_inside (JDict kvs) =
     (\<exists>kv \<in> set kvs. snd kv = JBool False \<or> False_inside (snd kv))"
| "False_inside (JList xs) = (\<exists>x \<in> set xs. x = JBool False \<or> False_inside x)"
| "False_inside v = False"

section \<open>Python operations on documents\<close>

text \<open>
  The exceptions the modelled code can raise. \<open>Exception\<close> carries the message of the
  \<^verbatim>\<open>raise Exception(f"...")\<close> in \<^verbatim>\<open>_databricks_api_get\<close>; \<open>JSONDecodeError\<close> is what
  \<^verbatim>\<open>response.json()\<close> raises on a body that is not JSON; \<open>RequestException\<close> stands for
  whatever \<^verbatim>\<open>requests.get\<close> itself raises (no connection, a URL without a scheme).

  An f-string is kept as its pieces, the literal text and the values of its replacement
  fields, in order: the rendering of a value by \<^verbatim>\<open>str()\<close> is not computed.
\<close>

datatype piece = Lit string | Val json

type_synonym fstring = "piece list"

datatype exn =
    Exception fstring
  | AttributeError
  | TypeError
  | KeyError
  | IndexError
  | JSONDecodeError
  | RequestException

fun truthy :: "json \<Rightarrow> bool" where
  \<comment> \<open>\<^verbatim>\<open>bool(v)\<close>, as in \<^verbatim>\<open>if v\<close>, \<^verbatim>\<open>not v\<close> and \<^verbatim>\<open>a if v else b\<close>\<close>
  "truthy JNull = False"
| "truthy (JBool b) = b"
| "truthy (JInt i) = (i \<noteq> 0)"
| "truthy (JFloat w) = (\<not> float_is_zero w)"
| "truthy (JStr s) = (s \<noteq> [])"
| "truthy (JList xs) = (xs \<noteq> [])"
| "truthy (JDict kvs) = (kvs \<noteq> [])"

fun subscript_key :: "json \<Rightarrow> string \<Rightarrow> exn + json" where
  \<comment> \<open>\<^verbatim>\<open>v['k']\<close>: only a dict takes a string subscript\<close>
  "subscript_key (JDict kvs) k = (case map_of kvs k of None \<Rightarrow> Inl KeyError | Some x \<Rightarrow> Inr x)"
| "subscript_key v k = Inl TypeError"

fun subscript_0 :: "json \<Rightarrow> exn + json" where
  \<comment> \<open>\<^verbatim>\<open>v[0]\<close>; the keys of a document's dict are strings, so \<^verbatim>\<open>0\<close> is never one\<close>
  "subscript_0 (JList []) = Inl IndexError"
| "subscript_0 (JList (x # xs)) = Inr x"
| "subscript_0 (JStr []) = Inl IndexError"
| "subscript_0 (JStr (c # cs)) = Inr (JStr [c])"
| "subscript_0 (JDict kvs) = Inl KeyError"
| "subscript_0 v = Inl TypeError"

fun attr_get :: "json \<Rightarrow> string \<Rightarrow> json \<Rightarrow> exn + json" where
  \<comment> \<open>\<^verbatim>\<open>v.get('k', default)\<close>: only a dict has the method\<close>
  "attr_get (JDict kvs) k dflt = Inr (case map_of kvs k of None \<Rightarrow> dflt | Some x \<Rightarrow> x)"
| "attr_get v k dflt = Inl AttributeError"

fun attr_json :: "json \<Rightarrow> exn + json" where
  \<comment> \<open>\<^verbatim>\<open>v.json()\<close> on a document (not on a response): no document has the method\<close>
  "attr_json v = Inl AttributeError"

fun iter :: "json \<Rightarrow> exn + json list" where
  \<comment> \<open>what \<^verbatim>\<open>for x in v\<close> runs through: the elements of a list, the keys of a dict, the
      characters of a string\<close>
  "iter (JList xs) = Inr xs"
| "iter (JDict kvs) = Inr (map (\<lambda>kv. JStr (fst kv)) kvs)"
| "iter (JStr s) = Inr (map (\<lambda>c. JStr [c]) s)"
| "iter v = Inl TypeError"

fun traverse :: "('a \<Rightarrow> exn + 'b) \<Rightarrow> 'a list \<Rightarrow> exn + 'b list" where
  \<comment> \<open>a list comprehension, or a loop that appends, whose body may raise\<close>
  "traverse f [] = Inr []"
| "traverse f (x # xs) =
     (case f x of
        Inl e \<Rightarrow> Inl e
      | Inr y \<Rightarrow> (case traverse f xs of Inl e \<Rightarrow> Inl e | Inr ys \<Rightarrow> Inr (y # ys)))"

definition try_bind :: "exn + 'a \<Rightarrow> ('a \<Rightarrow> exn + 'b) \<Rightarrow> exn + 'b" where
  \<comment> \<open>one step after another, the first exception ending the sequence\<close>
  "try_bind r f = (case r of Inl e \<Rightarrow> Inl e | Inr x \<Rightarrow> f x)"

section \<open>Effects: the transport, standard output, exceptions\<close>

text \<open>
  \<^verbatim>\<open>requests.get(url, headers=...)\<close> is a parameter of the model, the \<open>transport\<close>: it
  answers a URL (an f-string) and headers with a response, or raises. Of a response the
  code reads \<^verbatim>\<open>status_code\<close> and \<^verbatim>\<open>json()\<close>; \<open>body\<close> is \<open>None\<close> when the body is not
  JSON. The answers depend on the request only: the backend does not change during a run.

  A computation yields the lines it printed and then a value or the exception that ended it.
\<close>

record response =
  status_code :: int
  body :: "json option"

type_synonym headers = "(string \<times> fstring) list"

type_synonym transport = "fstring \<Rightarrow> headers \<Rightarrow> exn + response"

type_synonym 'a py = "fstring list \<times> (exn + 'a)"

definition py_return :: "'a \<Rightarrow> 'a py" where
  "py_return x = ([], Inr x)"

definition py_raise :: "exn \<Rightarrow> 'a py" where
  "py_raise e = ([], Inl e)"

definition py_lift :: "exn + 'a \<Rightarrow> 'a py" where
  "py_lift r = ([], r)"

definition py_print :: "fstring \<Rightarrow> unit py" where
  "py_print line = ([line], Inr ())"

definition py_bind :: "'a py \<Rightarrow> ('a \<Rightarrow> 'b py) \<Rightarrow> 'b py" where
  "py_bind m f =
     (case m of
        (out, Inl e) \<Rightarrow> (out, Inl e)
      | (out, Inr x) \<Rightarrow> (case f x of (out', r) \<Rightarrow> (out @ out', r)))"

fun py_traverse :: "('a \<Rightarrow> 'b py) \<Rightarrow> 'a list \<Rightarrow> 'b list py" where
  "py_traverse f [] = py_return []"
| "py_traverse f (x # xs) =
     py_bind (f x) (\<lambda>y. py_bind (py_traverse f xs) (\<lambda>ys. py_return (y # ys)))"

definition response_json :: "response \<Rightarrow> exn + json" where
  \<comment> \<open>\<^verbatim>\<open>response.json()\<close>\<close>
  "response_json r = (case body r of None \<Rightarrow> Inl JSONDecodeError | Some v \<Rightarrow> Inr v)"

section \<open>The environments\<close>

text \<open>
  \<^verbatim>\<open>SparkEnvironment.__init__\<close> sets \<^verbatim>\<open>application_id\<close> to \<^verbatim>\<open>None\<close>; each subclass adds
  the fields its constructor stores. A field holds whatever the caller passed, \<^verbatim>\<open>None\<close>
  included.
\<close>

record SparkEnvironment =
  application_id :: json

record DatabricksSparkEnvironment = SparkEnvironment +
  databricks_token :: json
  databricks_instance :: json
  databricks_application_id :: json

record NonDatabricksSparkEnvironment = SparkEnvironment +
  spark_master_url :: json
  NonDatabricksSparkEnvironment_application_id :: json

record LocalSparkEnvironment = SparkEnvironment +
  local_spark_ui_url :: json
  local_application_id :: json

datatype spark_environment =
    Databricks DatabricksSparkEnvironment
  | NonDatabricks NonDatabricksSparkEnvironment
  | Local LocalSparkEnvironment

definition DatabricksSparkEnvironment_init :: "json \<Rightarrow> json \<Rightarrow> json \<Rightarrow> DatabricksSparkEnvironment" where
  "DatabricksSparkEnvironment_init token instance app =
     \<lparr>application_id = JNull, databricks_token = token, databricks_instance = instance,
      databricks_application_id = app\<rparr>"

definition NonDatabricksSparkEnvironment_init :: "json \<Rightarrow> json \<Rightarrow> NonDatabricksSparkEnvironment" where
  "NonDatabricksSparkEnvironment_init url app =
     \<lparr>application_id = JNull, spark_master_url = url,
      NonDatabricksSparkEnvironment_application_id = app\<rparr>"

definition LocalSparkEnvironment_init :: "json \<Rightarrow> json \<Rightarrow> LocalSparkEnvironment" where
  "LocalSparkEnvironment_init url app =
     \<lparr>application_id = JNull, local_spark_ui_url = url, local_application_id = app\<rparr>"

section \<open>SparkEnvironmentFactory\<close>

definition kwargs_get :: "(string \<rightharpoonup> json) \<Rightarrow> string \<Rightarrow> json" where
  \<comment> \<open>\<^verbatim>\<open>kwargs.get(name)\<close>: \<^verbatim>\<open>None\<close> for a keyword that was not passed\<close>
  "kwargs_get kwargs name = (case kwargs name of None \<Rightarrow> JNull | Some v \<Rightarrow> v)"

definition get_spark_environment :: "bool \<Rightarrow> bool \<Rightarrow> (string \<rightharpoonup> json) \<Rightarrow> spark_environment" where
  "get_spark_environment is_databricks is_local kwargs =
     (if is_local then
        Local (LocalSparkEnvironment_init
                 (kwargs_get kwargs ''local_spark_ui_url'')
                 (kwargs_get kwargs ''local_application_id''))
      else if is_databricks then
        Databricks (DatabricksSparkEnvironment_init
                      (kwargs_get kwargs ''databricks_token'')
                      (kwargs_get kwargs ''databricks_instance'')
                      (kwargs_get kwargs ''databricks_application_id''))
      else
        NonDatabricks (NonDatabricksSparkEnvironment_init
                         (kwargs_get kwargs ''spark_master_url'')
                         (kwargs_get kwargs ''NonDatabricksSparkEnvironment_application_id'')))"

section \<open>DatabricksSparkEnvironment\<close>

definition databricks_api_get :: "transport \<Rightarrow> DatabricksSparkEnvironment \<Rightarrow> fstring \<Rightarrow> json py" where
  \<comment> \<open>\<^verbatim>\<open>_databricks_api_get\<close>: the URL is \<^verbatim>\<open>f"{self.databricks_instance}{endpoint}"\<close>\<close>
  "databricks_api_get rq self endpoint =
     py_bind (py_lift (rq (Val (databricks_instance self) # endpoint)
                          [(''Authorization'', [Lit ''Bearer '', Val (databricks_token self)])]))
       (\<lambda>response.
          if status_code response = 200 then py_lift (response_json response)
          else py_raise (Exception [Lit ''Failed to fetch data from Databricks. Status: '',
                                    Val (JInt (status_code response))]))"

definition Databricks_get_application_id ::
    "transport \<Rightarrow> DatabricksSparkEnvironment \<Rightarrow> (json \<times> DatabricksSparkEnvironment) py" where
  "Databricks_get_application_id rq self =
     py_bind (databricks_api_get rq self [Lit ''/api/2.0/jobs/list''])
       (\<lambda>jobs.
          py_bind (if truthy jobs then
                     py_bind (py_lift (subscript_key jobs ''jobs''))
                       (\<lambda>listing. py_bind (py_lift (subscript_0 listing))
                          (\<lambda>entry. py_lift (subscript_key entry ''job_id'')))
                   else py_return JNull)
            (\<lambda>app. py_return (app, self\<lparr>application_id := app\<rparr>)))"

definition Databricks_get_all_job_details_of_application ::
    "transport \<Rightarrow> DatabricksSparkEnvironment \<Rightarrow> json py" where
  "Databricks_get_all_job_details_of_application rq self =
     py_bind (py_lift (rq [Lit ''/api/v1/applications/'', Val (databricks_application_id self),
                           Lit ''/jobs''] []))
       (\<lambda>response.
          if status_code response = 200 then py_lift (response_json response)
          else py_return JNull)"

definition Databricks_get_specific_job_details ::
    "transport \<Rightarrow> DatabricksSparkEnvironment \<Rightarrow> json \<Rightarrow> json py" where
  "Databricks_get_specific_job_details rq self job_id =
     py_bind (py_lift (rq [Lit ''/api/v1/applications/'', Val (databricks_application_id self),
                           Lit ''/jobs/'', Val job_id] []))
       (\<lambda>response.
          if status_code response = 200 then py_lift (response_json response)
          else py_return JNull)"

text \<open>
  The loop of \<^verbatim>\<open>get_stage_details\<close>: each stage is fetched through
  \<^verbatim>\<open>_databricks_api_get\<close>, and \<^verbatim>\<open>.json()\<close> is then called on the document it returned.
\<close>

fun Databricks_stage_loop ::
    "transport \<Rightarrow> DatabricksSparkEnvironment \<Rightarrow> json list \<Rightarrow> json list py" where
  "Databricks_stage_loop rq self [] = py_return []"
| "Databricks_stage_loop rq self (stage_id # rest) =
     py_bind (databricks_api_get rq self
                [Lit ''/api/v1/applications/'', Val (databricks_application_id self),
                 Lit ''/stages/'', Val stage_id])
       (\<lambda>fetched. py_bind (py_lift (attr_json fetched))
          (\<lambda>stage_details. py_bind (Databricks_stage_loop rq self rest)
             (\<lambda>stages. py_return (stage_details # stages))))"

definition Databricks_get_stage_details ::
    "transport \<Rightarrow> DatabricksSparkEnvironment \<Rightarrow> json \<Rightarrow> json py" where
  "Databricks_get_stage_details rq self job_id =
     py_bind (Databricks_get_specific_job_details rq self job_id)
       (\<lambda>job_details.
          if \<not> truthy job_details then
            py_bind (py_print [Lit ''Job ID '', Val job_id, Lit '' not found in application '',
                               Val (databricks_application_id self), Lit ''.''])
              (\<lambda>_. py_return JNull)
          else
            py_bind (py_lift (attr_get job_details ''stageIds'' (JList [])))
              (\<lambda>stage_ids. py_bind (py_lift (iter stage_ids))
                 (\<lambda>ids. py_bind (Databricks_stage_loop rq self ids)
                    (\<lambda>stages. py_return (JDict [(''job_id'', job_id),
                                                 (''stages'', JList stages)])))))"

section \<open>NonDatabricksSparkEnvironment\<close>

definition NonDatabricks_get_application_id ::
    "transport \<Rightarrow> NonDatabricksSparkEnvironment \<Rightarrow> (json \<times> NonDatabricksSparkEnvironment) py" where
  "NonDatabricks_get_application_id rq self =
     py_bind (py_lift (rq [Val (spark_master_url self), Lit ''/applications''] []))
       (\<lambda>response.
          if status_code response = 200 then
            py_bind (py_lift (response_json response))
              (\<lambda>applications.
                 py_bind (if truthy applications then
                            py_bind (py_lift (subscript_0 applications))
                              (\<lambda>entry. py_lift (subscript_key entry ''id''))
                          else py_return JNull)
                   (\<lambda>app. py_return (app, self\<lparr>application_id := app\<rparr>)))
          else py_return (application_id self, self))"

definition NonDatabricks_get_all_job_details_of_application ::
    "transport \<Rightarrow> NonDatabricksSparkEnvironment \<Rightarrow> json py" where
  \<comment> \<open>the URL reads \<^verbatim>\<open>self.local_spark_ui_url\<close>, an attribute this class does not have\<close>
  "NonDatabricks_get_all_job_details_of_application rq self = py_raise AttributeError"

definition NonDatabricks_get_specific_job_details ::
    "transport \<Rightarrow> NonDatabricksSparkEnvironment \<Rightarrow> json \<Rightarrow> json py" where
  "NonDatabricks_get_specific_job_details rq self job_id =
     py_bind (py_lift (rq [Val (spark_master_url self), Lit ''/applications/'',
                           Val (NonDatabricksSparkEnvironment_application_id self),
                           Lit ''/jobs/'', Val job_id] []))
       (\<lambda>response.
          if status_code response = 200 then py_lift (response_json response)
          else py_return JNull)"

fun NonDatabricks_stage_loop ::
    "transport \<Rightarrow> NonDatabricksSparkEnvironment \<Rightarrow> json list \<Rightarrow> json list py" where
  "NonDatabricks_stage_loop rq self [] = py_return []"
| "NonDatabricks_stage_loop rq self (stage_id # rest) =
     py_bind (py_lift (rq [Val (spark_master_url self), Lit ''/applications/'',
                           Val (NonDatabricksSparkEnvironment_application_id self),
                           Lit ''/stages/'', Val stage_id] []))
       (\<lambda>response. py_bind (py_lift (response_json response))
          (\<lambda>stage_details. py_bind (NonDatabricks_stage_loop rq self rest)
             (\<lambda>stages. py_return (stage_details # stages))))"

definition NonDatabricks_get_stage_details ::
    "transport \<Rightarrow> NonDatabricksSparkEnvironment \<Rightarrow> json \<Rightarrow> json py" where
  "NonDatabricks_get_stage_details rq self job_id =
     py_bind (NonDatabricks_get_specific_job_details rq self job_id)
       (\<lambda>job_details.
          if \<not> truthy job_details then
            py_bind (py_print [Lit ''Job ID '', Val job_id, Lit '' not found in application '',
                               Val (NonDatabricksSparkEnvironment_application_id self), Lit ''.''])
              (\<lambda>_. py_return JNull)
          else
            py_bind (py_lift (attr_get job_details ''stageIds'' (JList [])))
              (\<lambda>stage_ids. py_bind (py_lift (iter stage_ids))
                 (\<lambda>ids. py_bind (NonDatabricks_stage_loop rq self ids)
                    (\<lambda>stages. py_return (JDict [(''job_id'', job_id),
                                                 (''stages'', JList stages)])))))"

section \<open>LocalSparkEnvironment\<close>

definition Local_get_application_id ::
    "transport \<Rightarrow> LocalSparkEnvironment \<Rightarrow> (json \<times> LocalSparkEnvironment) py" where
  "Local_get_application_id rq self =
     py_bind (py_lift (rq [Val (local_spark_ui_url self), Lit ''/applications''] []))
       (\<lambda>response.
          if status_code response = 200 then
            py_bind (py_lift (response_json response))
              (\<lambda>applications.
                 py_bind (if truthy applications then
                            py_bind (py_lift (subscript_0 applications))
                              (\<lambda>entry. py_lift (subscript_key entry ''id''))
                          else py_return JNull)
                   (\<lambda>app. py_return (app, self\<lparr>application_id := app\<rparr>)))
          else py_return (application_id self, self))"

definition Local_get_all_job_details_of_application ::
    "transport \<Rightarrow> LocalSparkEnvironment \<Rightarrow> json py" where
  "Local_get_all_job_details_of_application rq self =
     py_bind (py_lift (rq [Val (local_spark_ui_url self), Lit ''/applications/'',
                           Val (local_application_id self), Lit ''/jobs''] []))
       (\<lambda>response.
          if status_code response = 200 then py_lift (response_json response)
          else py_return JNull)"

definition Local_get_specific_job_details ::
    "transport \<Rightarrow> LocalSparkEnvironment \<Rightarrow> json \<Rightarrow> json py" where
  "Local_get_specific_job_details rq self job_id =
     py_bind (py_lift (rq [Val (local_spark_ui_url self), Lit ''/applications/'',
                           Val (local_application_id self), Lit ''/jobs/'', Val job_id] []))
       (\<lambda>response.
          if status_code response = 200 then py_lift (response_json response)
          else py_return JNull)"

fun Local_stage_loop ::
    "transport \<Rightarrow> LocalSparkEnvironment \<Rightarrow> json list \<Rightarrow> json list py" where
  "Local_stage_loop rq self [] = py_return []"
| "Local_stage_loop rq self (stage_id # rest) =
     py_bind (py_lift (rq [Val (local_spark_ui_url self), Lit ''/applications/'',
                           Val (local_application_id self), Lit ''/stages/'', Val stage_id] []))
       (\<lambda>stage_details.
          py_bind (if status_code stage_details = 200 then py_lift (response_json stage_details)
                   else py_return JNull)
            (\<lambda>appended. py_bind (Local_stage_loop rq self rest)
               (\<lambda>stages. py_return (appended # stages))))"

definition Local_get_stage_details ::
    "transport \<Rightarrow> LocalSparkEnvironment \<Rightarrow> json \<Rightarrow> json py" where
  "Local_get_stage_details rq self job_id =
     py_bind (Local_get_specific_job_details rq self job_id)
       (\<lambda>job_details.
          if \<not> truthy job_details then
            py_bind (py_print [Lit ''Job ID '', Val job_id, Lit '' not found in application '',
                               Val (local_application_id self), Lit ''.''])
              (\<lambda>_. py_return JNull)
          else
            py_bind (py_lift (attr_get job_details ''stageIds'' (JList [])))
              (\<lambda>stage_ids. py_bind (py_lift (iter stage_ids))
                 (\<lambda>ids. py_bind (Local_stage_loop rq self ids)
                    (\<lambda>stages. py_return (JDict [(''job_id'', job_id),
                                                 (''stages'', JList stages)])))))"

definition Local_get_task_details ::
    "transport \<Rightarrow> LocalSparkEnvironment \<Rightarrow> json \<Rightarrow> json \<Rightarrow> json py" where
  "Local_get_task_details rq self stage_id stage_attempt_id =
     py_bind (py_lift (rq [Val (local_spark_ui_url self), Lit ''/applications/'',
                           Val (local_application_id self), Lit ''/stages/'', Val stage_id,
                           Lit ''/'', Val stage_attempt_id, Lit ''/taskSummary''] []))
       (\<lambda>response.
          py_bind (py_print [Val (JInt (status_code response))])
            (\<lambda>_. if status_code response = 200 then py_lift (response_json response)
                  else py_return JNull))"

section \<open>Method calls on an environment of any class\<close>

fun get_all_job_details_of_application :: "transport \<Rightarrow> spark_environment \<Rightarrow> json py" where
  "get_all_job_details_of_application rq (Databricks self) =
     Databricks_get_all_job_details_of_application rq self"
| "get_all_job_details_of_application rq (NonDatabricks self) =
     NonDatabricks_get_all_job_details_of_application rq self"
| "get_all_job_details_of_application rq (Local self) =
     Local_get_all_job_details_of_application rq self"

fun get_specific_job_details :: "transport \<Rightarrow> spark_environment \<Rightarrow> json \<Rightarrow> json py" where
  "get_specific_job_details rq (Databricks self) job_id =
     Databricks_get_specific_job_details rq self job_id"
| "get_specific_job_details rq (NonDatabricks self) job_id =
     NonDatabricks_get_specific_job_details rq self job_id"
| "get_specific_job_details rq (Local self) job_id =
     Local_get_specific_job_details rq self job_id"

fun get_stage_details :: "transport \<Rightarrow> spark_environment \<Rightarrow> json \<Rightarrow> json py" where
  "get_stage_details rq (Databricks self) job_id = Databricks_get_stage_details rq self job_id"
| "get_stage_details rq (NonDatabricks self) job_id = NonDatabricks_get_stage_details rq self job_id"
| "get_stage_details rq (Local self) job_id = Local_get_stage_details rq self job_id"

text \<open>
  \<^verbatim>\<open>main\<close> calls \<^verbatim>\<open>get_task_details(stage_id = ..., stage_attempt_id = ...)\<close>. Only the local
  class takes the keyword \<^verbatim>\<open>stage_attempt_id\<close>; on the other two the call raises
  \<^verbatim>\<open>TypeError\<close> before the method body runs.
\<close>

fun get_task_details :: "transport \<Rightarrow> spark_environment \<Rightarrow> json \<Rightarrow> json \<Rightarrow> json py" where
  "get_task_details rq (Local self) stage_id stage_attempt_id =
     Local_get_task_details rq self stage_id stage_attempt_id"
| "get_task_details rq env stage_id stage_attempt_id = py_raise TypeError"

section \<open>main\<close>

text \<open>
  The two nested loops of \<^verbatim>\<open>main\<close> over \<^verbatim>\<open>all_jobs_stage_details\<close>:
  \<^verbatim>\<open>for single_stage_details in all_jobs_stage_details:\<close>
  \<^verbatim>\<open>    for stage in single_stage_details.get("stages"):\<close>
  \<^verbatim>\<open>        acc.append(entry(stage))\<close>
  with \<open>entry\<close> the expression appended: \<open>stage_id_of\<close> in the first pair of loops,
  \<open>stage_and_attempt_id_of\<close> in the second. \<^verbatim>\<open>.get("stages")\<close> is \<^verbatim>\<open>.get("stages", None)\<close>.
\<close>

definition stage_id_of :: "json \<Rightarrow> exn + json" where
  \<comment> \<open>\<^verbatim>\<open>stage[0].get("stageId", None)\<close>\<close>
  "stage_id_of stage = try_bind (subscript_0 stage) (\<lambda>first. attr_get first ''stageId'' JNull)"

definition stage_and_attempt_id_of :: "json \<Rightarrow> exn + json" where
  \<comment> \<open>\<^verbatim>\<open>{"stageId" : stage[0].get("stageId", None), "attemptId" : stage[0].get("attemptId", None)}\<close>\<close>
  "stage_and_attempt_id_of stage =
     try_bind (subscript_0 stage) (\<lambda>first.
     try_bind (attr_get first ''stageId'' JNull) (\<lambda>stage_id.
     try_bind (subscript_0 stage) (\<lambda>first'.
     try_bind (attr_get first' ''attemptId'' JNull) (\<lambda>attempt_id.
     Inr (JDict [(''stageId'', stage_id), (''attemptId'', attempt_id)])))))"

fun over_stages :: "(json \<Rightarrow> exn + json) \<Rightarrow> json list \<Rightarrow> exn + json list" where
  "over_stages entry [] = Inr []"
| "over_stages entry (single_stage_details # rest) =
     try_bind (attr_get single_stage_details ''stages'' JNull) (\<lambda>stages.
     try_bind (iter stages) (\<lambda>stage_list.
     try_bind (traverse entry stage_list) (\<lambda>appended.
     try_bind (over_stages entry rest) (\<lambda>more. Inr (appended @ more)))))"

text \<open>
  \<^verbatim>\<open>main\<close> from the call of \<^verbatim>\<open>get_all_job_details_of_application\<close> to the call of
  \<^verbatim>\<open>json_compaction\<close>; the result is \<^verbatim>\<open>return_json\<close> and \<^verbatim>\<open>formatted_data\<close>. What
  \<^verbatim>\<open>main\<close> does with them (three files written, the question sent to OpenAI) is
  outside this development. The local variable \<^verbatim>\<open>application_id\<close> is written
  \<open>application_id'\<close>, the plain name being the field of the environments.
\<close>

definition collect_and_compact ::
    "transport \<Rightarrow> spark_environment \<Rightarrow> json \<Rightarrow> json \<Rightarrow> (json \<times> json) py" where
  "collect_and_compact rq spark_env application_id' jobId =
     py_bind (get_all_job_details_of_application rq spark_env) (\<lambda>all_job_details_of_application.
     py_bind (py_lift (try_bind (iter all_job_details_of_application)
                         (traverse (\<lambda>jobs. attr_get jobs ''jobId'' JNull)))) (\<lambda>all_job_ids.
     py_bind (py_lift (subscript_0 (JList all_job_ids))) (\<lambda>first_job_id.
     py_bind (get_specific_job_details rq spark_env jobId) (\<lambda>specific_job_details.
     py_bind (py_print [Val (JList [jobId])]) (\<lambda>_.
     py_bind (py_traverse (\<lambda>jobId. get_stage_details rq spark_env jobId) [jobId])
       (\<lambda>all_jobs_stage_details.
     py_bind (py_lift (over_stages stage_id_of all_jobs_stage_details)) (\<lambda>all_stage_ids.
     py_bind (py_lift (over_stages stage_and_attempt_id_of all_jobs_stage_details))
       (\<lambda>all_stage_and_attempt_ids.
     py_bind (py_traverse
                (\<lambda>mappedIds.
                   py_bind (py_lift (attr_get mappedIds ''stageId'' JNull)) (\<lambda>stage_id.
                   py_bind (py_lift (attr_get mappedIds ''attemptId'' JNull)) (\<lambda>stage_attempt_id.
                   get_task_details rq spark_env stage_id stage_attempt_id)))
                all_stage_and_attempt_ids) (\<lambda>all_task_details.
     let return_json = JDict [(''applicationId'', application_id'),
                              (''specificJobDetails'', specific_job_details),
                              (''stageDetails'', JList all_jobs_stage_details),
                              (''task_details'', JList all_task_details)]
     in py_return (return_json, json_compaction return_json))))))))))"

definition main :: "transport \<Rightarrow> (json \<times> json) py" where
  "main rq =
     (let is_databricks = False;
          is_local = True;
          application_id' = JStr ''local-1728540004669'';
          spark_env =
            (if is_local then
               get_spark_environment False True
                 [''local_spark_ui_url'' \<mapsto> JStr ''http://localhost:4040/api/v1'',
                  ''local_application_id'' \<mapsto> application_id']
             else if is_databricks then
               get_spark_environment True False
                 [''databricks_token'' \<mapsto> JStr ''YOUR_DATABRICKS_ACCESS_TOKEN'',
                  ''databricks_instance'' \<mapsto> JStr ''https://<databricks-instance>'',
                  ''databricks_application_id'' \<mapsto> application_id']
             else
               get_spark_environment False False
                 [''spark_master_url'' \<mapsto> JStr ''http://<spark-master-url>:4040/api/v1'',
                  ''NonDatabricksSparkEnvironment_application_id'' \<mapsto> application_id']);
          jobId = JInt 22
      in collect_and_compact rq spark_env application_id' jobId)"

section \<open>Backends used in the examples\<close>

text \<open>
  \<open>backend_job_known\<close>: the local Spark UI knows job 22 of the application of \<^verbatim>\<open>main\<close>,
  its one stage, number 5, and the task summary of that stage's attempt 0.
  \<open>backend_job_unknown\<close>: the local Spark UI lists one job, number 0, for the application
  of \<^verbatim>\<open>main\<close>, and answers every other request with 404 and a body that is not JSON; job
  22 is unknown to it.
  \<open>backend_local_stages\<close>: a Spark UI at \<open>http://localhost:4040/api/v1\<close> where job 7 of
  application \<open>app-1\<close> has the stages 1 and 2; stage 2 is served, and stage 1, like every
  other request, is answered with 404 and a body that is not JSON.
  \<open>backend_empty_jobs\<close>: every request is answered with 200 and the document
  \<^verbatim>\<open>{"jobs": []}\<close>.
  \<open>backend_one_application\<close>: every request is answered with 200 and the list of one
  application, \<open>app-1\<close>.
\<close>

definition backend_job_known :: transport where
  "backend_job_known url hdrs =
     (if url = [Val (JStr ''http://localhost:4040/api/v1''), Lit ''/applications/'',
                Val (JStr ''local-1728540004669''), Lit ''/jobs'']
      then Inr \<lparr>status_code = 200, body = Some (JList [JDict [(''jobId'', JInt 22)]])\<rparr>
      else if url = [Val (JStr ''http://localhost:4040/api/v1''), Lit ''/applications/'',
                     Val (JStr ''local-1728540004669''), Lit ''/jobs/'', Val (JInt 22)]
      then Inr \<lparr>status_code = 200,
                body = Some (JDict [(''jobId'', JInt 22), (''numFailedTasks'', JInt 0),
                                    (''stageIds'', JList [JInt 5])])\<rparr>
      else if url = [Val (JStr ''http://localhost:4040/api/v1''), Lit ''/applications/'',
                     Val (JStr ''local-1728540004669''), Lit ''/stages/'', Val (JInt 5)]
      then Inr \<lparr>status_code = 200,
                body = Some (JList [JDict [(''stageId'', JInt 5), (''attemptId'', JInt 0),
                                           (''numTasks'', JInt 8)]])\<rparr>
      else if url = [Val (JStr ''http://localhost:4040/api/v1''), Lit ''/applications/'',
                     Val (JStr ''local-1728540004669''), Lit ''/stages/'', Val (JInt 5),
                     Lit ''/'', Val (JInt 0), Lit ''/taskSummary'']
      then Inr \<lparr>status_code = 200,
                body = Some (JDict [(''quantiles'', JList [JInt 0, JInt 1]),
                                    (''memoryBytesSpilled'', JList [JInt 0, JInt 0])])\<rparr>
      else Inr \<lparr>status_code = 404, body = None\<rparr>)"

definition backend_job_unknown :: transport where
  "backend_job_unknown url hdrs =
     (if url = [Val (JStr ''http://localhost:4040/api/v1''), Lit ''/applications/'',
                Val (JStr ''local-1728540004669''), Lit ''/jobs'']
      then Inr \<lparr>status_code = 200, body = Some (JList [JDict [(''jobId'', JInt 0)]])\<rparr>
      else Inr \<lparr>status_code = 404, body = None\<rparr>)"

definition backend_local_stages :: transport where
  "backend_local_stages url hdrs =
     (if url = [Val (JStr ''http://localhost:4040/api/v1''), Lit ''/applications/'',
                Val (JStr ''app-1''), Lit ''/jobs/'', Val (JInt 7)]
      then Inr \<lparr>status_code = 200,
                body = Some (JDict [(''jobId'', JInt 7), (''stageIds'', JList [JInt 1, JInt 2])])\<rparr>
      else if url = [Val (JStr ''http://localhost:4040/api/v1''), Lit ''/applications/'',
                     Val (JStr ''app-1''), Lit ''/stages/'', Val (JInt 2)]
      then Inr \<lparr>status_code = 200,
                body = Some (JList [JDict [(''stageId'', JInt 2), (''attemptId'', JInt 0)]])\<rparr>
      else Inr \<lparr>status_code = 404, body = None\<rparr>)"

definition backend_empty_jobs :: transport where
  "backend_empty_jobs url hdrs =
     Inr \<lparr>status_code = 200, body = Some (JDict [(''jobs'', JList [])])\<rparr>"

definition backend_one_application :: transport where
  "backend_one_application url hdrs =
     Inr \<lparr>status_code = 200, body = Some (JList [JDict [(''id'', JStr ''app-1'')]])\<rparr>"

section \<open>Compaction: auxiliary facts\<close>

lemma scan_iff: "scan xs \<longleftrightarrow> (\<exists>item \<in> set xs. \<not> in_list_sentinels item)"
  by (induction xs) auto

lemma map_filter_id_iff:
  "map f (filter p xs) = xs \<longleftrightarrow> (\<forall>x \<in> set xs. p x \<and> f x = x)"
proof
  assume h: "map f (filter p xs) = xs"
  then have "length (filter p xs) = length xs"
    by (metis length_map)
  then have all: "\<forall>x \<in> set xs. p x"
    by (metis length_filter_less less_irrefl_nat)
  then have "filter p xs = xs" by simp
  with h have "map f xs = xs" by simp
  then have "\<forall>x \<in> set xs. f x = x"
    by (metis map_eq_conv list.map_id id_apply)
  with all show "\<forall>x \<in> set xs. p x \<and> f x = x" by blast
next
  assume h: "\<forall>x \<in> set xs. p x \<and> f x = x"
  then have "filter p xs = xs" by simp
  moreover from h have "map f xs = xs" by (simp add: map_idI)
  ultimately show "map f (filter p xs) = xs" by simp
qed

lemma item_fixed_iff: "(fst kv, g (snd kv)) = kv \<longleftrightarrow> g (snd kv) = snd kv"
  by (cases kv) simp

lemma compaction_fixed_iff: "json_compaction d = d \<longleftrightarrow> settled d"
proof (induction d)
  case (JList xs)
  show ?case
  proof (cases "scan xs")
    case True
    have "map json_compaction xs = xs \<longleftrightarrow> (\<forall>x \<in> set xs. json_compaction x = x)"
      by (metis map_eq_conv list.map_id id_apply)
    with True JList show ?thesis by simp
  next
    case False
    then show ?thesis by auto
  qed
next
  case (JDict kvs)
  have ih: "\<And>kv. kv \<in> set kvs \<Longrightarrow> json_compaction (snd kv) = snd kv \<longleftrightarrow> settled (snd kv)"
    using JDict by (auto simp: snds.simps)
  show ?case
    using ih by (simp add: map_filter_id_iff item_fixed_iff)
qed simp_all

lemma list_sentinel_is_dict_sentinel: "in_list_sentinels v \<Longrightarrow> in_dict_sentinels v"
  by (auto simp: in_list_sentinels_def in_dict_sentinels_def)

text \<open>
  The code's membership tests against the specification's sets: they agree except on
  \<^verbatim>\<open>False\<close>, which the code takes for a sentinel of both kinds.
\<close>

lemma in_dict_sentinels_spec:
  "in_dict_sentinels v \<longleftrightarrow> spec_dict_sentinel v \<or> v = JBool False"
  by (cases v) (auto simp: in_dict_sentinels_def)

lemma in_list_sentinels_spec:
  "in_list_sentinels v \<longleftrightarrow> spec_list_sentinel v \<or> v = JBool False"
  by (cases v) (auto simp: in_list_sentinels_def)

lemma spec_sentinel_free_top: "spec_sentinel_free v \<Longrightarrow> \<not> spec_dict_sentinel v"
  by (cases v) simp_all

lemma spec_sentinel_free_settled:
  "spec_sentinel_free d \<Longrightarrow> \<not> False_inside d \<Longrightarrow> settled d"
proof (induction d)
  case (JList xs)
  from JList.prems have ne: "xs \<noteq> []"
      and free: "\<forall>x \<in> set xs. spec_sentinel_free x"
      and noF: "\<forall>x \<in> set xs. x \<noteq> JBool False \<and> \<not> False_inside x"
    by auto
  from ne obtain x where x: "x \<in> set xs" by (cases xs) auto
  with free noF have "\<not> in_dict_sentinels x"
    using spec_sentinel_free_top in_dict_sentinels_spec by blast
  then have "\<not> in_list_sentinels x"
    using list_sentinel_is_dict_sentinel by blast
  with x have "scan xs" by (auto simp: scan_iff)
  with free noF JList.IH show ?case by simp
next
  case (JDict kvs)
  have "\<not> in_dict_sentinels (snd kv) \<and> settled (snd kv)" if kv: "kv \<in> set kvs" for kv
  proof -
    from JDict.prems kv have free: "spec_sentinel_free (snd kv)"
        and noF: "snd kv \<noteq> JBool False" and inner: "\<not> False_inside (snd kv)"
      by auto
    from free noF have "\<not> in_dict_sentinels (snd kv)"
      using spec_sentinel_free_top in_dict_sentinels_spec by blast
    moreover have "settled (snd kv)"
      using JDict.IH kv free inner by (auto simp: snds.simps)
    ultimately show ?thesis by simp
  qed
  then show ?case by simp
qed simp_all

text \<open>Compaction keeps a well-formed document well-formed: no key appears twice.\<close>

lemma distinct_keys_compacted:
  "distinct (map fst kvs) \<Longrightarrow>
   distinct (map fst (map (\<lambda>kv. (fst kv, g (snd kv))) (filter p kvs)))"
  by (simp add: comp_def distinct_map_filter)

lemma wf_json_compaction: "wf_json d \<Longrightarrow> wf_json (json_compaction d)"
proof (induction d)
  case (JList xs)
  then show ?case by auto
next
  case (JDict kvs)
  have "distinct (map fst (map (\<lambda>kv. (fst kv, json_compaction (snd kv)))
          (filter (\<lambda>kv. \<not> in_dict_sentinels (snd kv)) kvs)))"
    using JDict.prems by (intro distinct_keys_compacted) simp
  moreover have "wf_json (json_compaction (snd kv))" if "kv \<in> set kvs" for kv
    using that JDict by (auto simp: snds.simps)
  ultimately show ?case by auto
qed simp_all

section \<open>Compaction: the claims\<close>







text \<open>
  A sequence of nothing but \<^verbatim>\<open>False\<close> compacts to the empty sequence, although \<^verbatim>\<open>False\<close>
  is none of \<open>0.0\<close>, the empty mapping, the empty sequence and absent: read with the
  specification's set, the sequence would survive as \<^verbatim>\<open>[False, False]\<close>.
\<close>

theorem list_of_False_compacts_to_empty:
  "\<not> spec_list_sentinel (JBool False)
   \<and> json_compaction (JList [JBool False, JBool False]) = JList []
   \<and> json_compaction (JList [JBool False, JBool False])
       \<noteq> JList (map json_compaction [JBool False, JBool False])"
  by (simp add: in_list_sentinels_def)

text \<open>
  C3, as the code has it: a sequence node is decided by a scan of its elements as they
  stand, each compared by Python's equality with the members of \<^verbatim>\<open>[0.0, {}, [], None]\<close>.
  An element is empty in that scan exactly when it is in the specification's set
  \<open>{0.0, empty-mapping, empty-sequence, absent}\<close> (a zero of either numeric type) or is the
  boolean \<^verbatim>\<open>False\<close>. If every element is empty, the sequence compacts to the empty
  sequence; otherwise it survives with every element compacted in its place and none
  removed. In particular \<^verbatim>\<open>compact({"a": [0, 5, 0]})\<close> is \<^verbatim>\<open>{"a": [0, 5, 0]}\<close>.
\<close>

theorem list_compaction_scan_then_transform:
  "((\<forall>item \<in> set xs. in_list_sentinels item) \<longrightarrow> json_compaction (JList xs) = JList [])
   \<and> ((\<exists>item \<in> set xs. \<not> in_list_sentinels item) \<longrightarrow>
        json_compaction (JList xs) = JList (map json_compaction xs))
   \<and> (in_list_sentinels v \<longleftrightarrow> spec_list_sentinel v \<or> v = JBool False)
   \<and> json_compaction (JDict [(''a'', JList [JInt 0, JInt 5, JInt 0])])
       = JDict [(''a'', JList [JInt 0, JInt 5, JInt 0])]"
proof -
  have "in_list_sentinels v \<longleftrightarrow> spec_list_sentinel v \<or> v = JBool False"
    by (rule in_list_sentinels_spec)
  moreover have "(\<forall>item \<in> set xs. in_list_sentinels item) \<longrightarrow>
      json_compaction (JList xs) = JList []"
    by (simp add: scan_iff)
  moreover have "(\<exists>item \<in> set xs. \<not> in_list_sentinels item) \<longrightarrow>
      json_compaction (JList xs) = JList (map json_compaction xs)"
    by (simp add: scan_iff)
  moreover have "json_compaction (JDict [(''a'', JList [JInt 0, JInt 5, JInt 0])])
       = JDict [(''a'', JList [JInt 0, JInt 5, JInt 0])]"
    by (simp add: in_dict_sentinels_def in_list_sentinels_def)
  ultimately show ?thesis by blast
qed

theorem list_compaction_scan_then_transform_witness:
  "list_all in_list_sentinels
     [JInt 0, JFloat 0x8000000000000000, JDict [], JList [], JNull, JBool False]
   \<and> json_compaction
        (JList [JInt 0, JFloat 0x8000000000000000, JDict [], JList [], JNull, JBool False])
       = JList []
   \<and> (\<exists>item \<in> set [JInt 0, JDict [(''n'', JInt 0)]]. \<not> in_list_sentinels item)
   \<and> json_compaction (JList [JInt 0, JDict [(''n'', JInt 0)]]) = JList [JInt 0, JDict []]"
  using list_compaction_scan_then_transform
    [where xs = "[JInt 0, JFloat 0x8000000000000000, JDict [], JList [], JNull, JBool False]"]
    list_compaction_scan_then_transform [where xs = "[JInt 0, JDict [(''n'', JInt 0)]]"]
  by (simp add: in_dict_sentinels_def in_list_sentinels_def float_is_zero_def)

text \<open>
  A key whose value is \<^verbatim>\<open>False\<close> is dropped, and a sequence holding only \<^verbatim>\<open>False\<close> compacts
  to the empty sequence: \<^verbatim>\<open>False == 0\<close> in Python, so \<^verbatim>\<open>False\<close> is in both lists.
\<close>

theorem compaction_drops_False:
  "json_compaction (JDict [(''a'', JBool False)]) = JDict []
   \<and> json_compaction (JList [JBool False]) = JList []"
  by (simp add: in_dict_sentinels_def in_list_sentinels_def)

text \<open>
  C4, as the code has it: \<^verbatim>\<open>False\<close> is treated as empty, being equal to \<^verbatim>\<open>0\<close> and \<^verbatim>\<open>0.0\<close>.
  In every mapping node a key whose value is \<^verbatim>\<open>False\<close> is dropped; in every sequence node
  an element \<^verbatim>\<open>False\<close> counts as empty in the scan, and a sequence of nothing but \<^verbatim>\<open>False\<close>
  compacts to the empty sequence. \<^verbatim>\<open>True\<close> is never treated as empty: its key is kept, and
  a sequence holding it survives.
\<close>

theorem compaction_treats_False_as_empty:
  "json_compaction (JDict (kvs1 @ (k, JBool False) # kvs2)) = json_compaction (JDict (kvs1 @ kvs2))
   \<and> scan (xs1 @ JBool False # xs2) = scan (xs1 @ xs2)
   \<and> json_compaction (JList (replicate n (JBool False))) = JList []
   \<and> (\<exists>kvs'. json_compaction (JDict (kvs1 @ (k, JBool True) # kvs2)) = JDict kvs'
         \<and> (k, JBool True) \<in> set kvs')
   \<and> scan (xs1 @ JBool True # xs2)"
  by (simp add: scan_iff in_dict_sentinels_def in_list_sentinels_def)

theorem compaction_treats_False_as_empty_witness:
  "json_compaction (JDict ([(''n'', JInt 3)] @ (''flag'', JBool False) # [(''m'', JInt 4)]))
     = JDict [(''n'', JInt 3), (''m'', JInt 4)]
   \<and> json_compaction (JList (replicate 2 (JBool False))) = JList []
   \<and> json_compaction (JList ([JInt 0] @ JBool True # [JBool False]))
     = JList [JInt 0, JBool True, JBool False]"
  using compaction_treats_False_as_empty
    [of "[(''n'', JInt 3)]" "''flag''" "[(''m'', JInt 4)]" "[JInt 0]" "[JBool False]" 2]
  by (simp add: in_dict_sentinels_def in_list_sentinels_def numeral_2_eq_2)

text \<open>
  The document \<^verbatim>\<open>{"isActive": False, "n": 3}\<close> holds none of \<^verbatim>\<open>0\<close>, \<^verbatim>\<open>0.0\<close>, \<^verbatim>\<open>""\<close>,
  \<^verbatim>\<open>[]\<close>, \<^verbatim>\<open>{}\<close>, \<^verbatim>\<open>None\<close>, and compaction changes it: the key \<^verbatim>\<open>isActive\<close> is dropped.
\<close>

theorem compaction_changes_sentinel_free_document:
  "spec_sentinel_free (JDict [(''isActive'', JBool False), (''n'', JInt 3)])
   \<and> json_compaction (JDict [(''isActive'', JBool False), (''n'', JInt 3)])
       = JDict [(''n'', JInt 3)]
   \<and> json_compaction (JDict [(''isActive'', JBool False), (''n'', JInt 3)])
       \<noteq> JDict [(''isActive'', JBool False), (''n'', JInt 3)]"
  by (simp add: in_dict_sentinels_def)

text \<open>
  C5, as the code has it: compaction is the identity on a document in which nothing,
  neither the document itself nor any mapping value or sequence element at any depth, is
  one of \<^verbatim>\<open>0\<close>, \<^verbatim>\<open>0.0\<close>, \<^verbatim>\<open>""\<close>, \<^verbatim>\<open>[]\<close>, \<^verbatim>\<open>{}\<close>, \<^verbatim>\<open>None\<close>, and in which moreover no
  mapping value and no sequence element is \<^verbatim>\<open>False\<close>.
\<close>

theorem compaction_identity_on_sentinel_free:
  "spec_sentinel_free D \<Longrightarrow> \<not> False_inside D \<Longrightarrow> json_compaction D = D"
  using spec_sentinel_free_settled compaction_fixed_iff by blast

theorem compaction_identity_on_sentinel_free_witness:
  "spec_sentinel_free (JDict [(''id'', JInt 7), (''ok'', JBool True),
                              (''xs'', JList [JStr ''a'', JFloat 0x3FF0000000000000])])
   \<and> \<not> False_inside (JDict [(''id'', JInt 7), (''ok'', JBool True),
                             (''xs'', JList [JStr ''a'', JFloat 0x3FF0000000000000])])
   \<and> json_compaction (JDict [(''id'', JInt 7), (''ok'', JBool True),
                              (''xs'', JList [JStr ''a'', JFloat 0x3FF0000000000000])])
     = JDict [(''id'', JInt 7), (''ok'', JBool True),
              (''xs'', JList [JStr ''a'', JFloat 0x3FF0000000000000])]"
  using compaction_identity_on_sentinel_free
    [of "JDict [(''id'', JInt 7), (''ok'', JBool True),
                (''xs'', JList [JStr ''a'', JFloat 0x3FF0000000000000])]"]
  by (simp add: float_is_zero_def)

section \<open>The environments: auxiliary facts\<close>

lemmas py_defs = py_bind_def py_lift_def py_return_def py_raise_def py_print_def try_bind_def

text \<open>
  The loop of the local \<^verbatim>\<open>get_stage_details\<close> runs to its end whenever the transport
  answers every stage request and every answer with status 200 carries JSON: it returns
  one entry per stage id, in order, the document of a stage answered with 200 and
  \<^verbatim>\<open>None\<close> for any other status.
\<close>

lemma Local_stage_loop_total:
  assumes "\<forall>sid \<in> set sids. \<exists>r.
             rq [Val (local_spark_ui_url self), Lit ''/applications/'',
                 Val (local_application_id self), Lit ''/stages/'', Val sid] [] = Inr r
             \<and> (status_code r = 200 \<longrightarrow> body r \<noteq> None)"
  shows "\<exists>stages. Local_stage_loop rq self sids = ([], Inr stages)
           \<and> length stages = length sids
           \<and> (\<forall>i < length sids. \<exists>r.
                 rq [Val (local_spark_ui_url self), Lit ''/applications/'',
                     Val (local_application_id self), Lit ''/stages/'', Val (sids ! i)] [] = Inr r
                 \<and> (status_code r = 200 \<longrightarrow> body r = Some (stages ! i))
                 \<and> (status_code r \<noteq> 200 \<longrightarrow> stages ! i = JNull))"
  using assms
proof (induction sids)
  case Nil
  show ?case by (simp add: py_return_def)
next
  case (Cons sid sids)
  let ?U = "\<lambda>s. [Val (local_spark_ui_url self), Lit ''/applications/'',
                 Val (local_application_id self), Lit ''/stages/'', Val s]"
  from Cons.prems obtain r where r: "rq (?U sid) [] = Inr r"
      and ok: "status_code r = 200 \<longrightarrow> body r \<noteq> None"
    by auto
  from Cons.prems have "\<forall>s \<in> set sids. \<exists>r. rq (?U s) [] = Inr r
      \<and> (status_code r = 200 \<longrightarrow> body r \<noteq> None)"
    by simp
  from Cons.IH [OF this] obtain stages where
      loop: "Local_stage_loop rq self sids = ([], Inr stages)"
      and len: "length stages = length sids"
      and each: "\<forall>i < length sids. \<exists>r. rq (?U (sids ! i)) [] = Inr r
                 \<and> (status_code r = 200 \<longrightarrow> body r = Some (stages ! i))
                 \<and> (status_code r \<noteq> 200 \<longrightarrow> stages ! i = JNull)"
    by blast
  define entry where "entry = (if status_code r = 200 then the (body r) else JNull)"
  have step: "Local_stage_loop rq self (sid # sids) = ([], Inr (entry # stages))"
    using r ok loop by (auto simp: entry_def py_defs response_json_def)
  have first: "(status_code r = 200 \<longrightarrow> body r = Some entry)
      \<and> (status_code r \<noteq> 200 \<longrightarrow> entry = JNull)"
    using ok by (auto simp: entry_def)
  have "\<exists>r. rq (?U ((sid # sids) ! i)) [] = Inr r
            \<and> (status_code r = 200 \<longrightarrow> body r = Some ((entry # stages) ! i))
            \<and> (status_code r \<noteq> 200 \<longrightarrow> (entry # stages) ! i = JNull)"
    if "i < length (sid # sids)" for i
  proof (cases i)
    case 0
    with r first show ?thesis by auto
  next
    case (Suc j)
    with that have "j < length sids" by simp
    with each Suc show ?thesis by simp
  qed
  with step len show ?case by auto
qed

text \<open>
  In all three classes, \<^verbatim>\<open>get_stage_details\<close> for a job whose lookup is answered with a
  status other than 200 prints the message and returns \<^verbatim>\<open>None\<close>; it raises nothing.
\<close>

lemma Local_get_stage_details_unknown_job:
  assumes "rq [Val (local_spark_ui_url self), Lit ''/applications/'',
               Val (local_application_id self), Lit ''/jobs/'', Val job_id] [] = Inr r"
    and "status_code r \<noteq> 200"
  shows "Local_get_stage_details rq self job_id =
           ([[Lit ''Job ID '', Val job_id, Lit '' not found in application '',
              Val (local_application_id self), Lit ''.'']], Inr JNull)"
  using assms
  by (simp add: Local_get_stage_details_def Local_get_specific_job_details_def py_defs)

lemma NonDatabricks_get_stage_details_unknown_job:
  assumes "rq [Val (spark_master_url self), Lit ''/applications/'',
               Val (NonDatabricksSparkEnvironment_application_id self),
               Lit ''/jobs/'', Val job_id] [] = Inr r"
    and "status_code r \<noteq> 200"
  shows "NonDatabricks_get_stage_details rq self job_id =
           ([[Lit ''Job ID '', Val job_id, Lit '' not found in application '',
              Val (NonDatabricksSparkEnvironment_application_id self), Lit ''.'']], Inr JNull)"
  using assms
  by (simp add: NonDatabricks_get_stage_details_def NonDatabricks_get_specific_job_details_def
        py_defs)

lemma Databricks_get_stage_details_unknown_job:
  assumes "rq [Lit ''/api/v1/applications/'', Val (databricks_application_id self),
               Lit ''/jobs/'', Val job_id] [] = Inr r"
    and "status_code r \<noteq> 200"
  shows "Databricks_get_stage_details rq self job_id =
           ([[Lit ''Job ID '', Val job_id, Lit '' not found in application '',
              Val (databricks_application_id self), Lit ''.'']], Inr JNull)"
  using assms
  by (simp add: Databricks_get_stage_details_def Databricks_get_specific_job_details_def
        py_defs)

text \<open>
  The Databricks class builds its job URL as \<^verbatim>\<open>f"/api/v1/applications/{...}/jobs/{job_id}"\<close>,
  with no scheme and no host, and passes it to \<^verbatim>\<open>requests.get\<close> as it is. When the
  transport raises on such a URL, as \<^verbatim>\<open>requests\<close> does, \<^verbatim>\<open>get_stage_details\<close> ends with
  that exception for every job, known or not.
\<close>

lemma Databricks_get_stage_details_no_scheme:
  assumes "rq [Lit ''/api/v1/applications/'', Val (databricks_application_id self),
               Lit ''/jobs/'', Val job_id] [] = Inl e"
  shows "Databricks_get_stage_details rq self job_id = ([], Inl e)"
  using assms
  by (simp add: Databricks_get_stage_details_def Databricks_get_specific_job_details_def
        py_defs)

text \<open>
  The stage loops of \<^verbatim>\<open>main\<close> raise whenever an entry of \<^verbatim>\<open>all_jobs_stage_details\<close> is
  \<^verbatim>\<open>None\<close>, wherever it stands in the list: at that entry \<^verbatim>\<open>.get("stages")\<close> raises
  \<^verbatim>\<open>AttributeError\<close>, unless an earlier entry has raised already.
\<close>

lemma over_stages_None:
  "JNull \<in> set all_jobs_stage_details \<Longrightarrow>
   \<exists>e. over_stages entry all_jobs_stage_details = Inl e"
proof (induction all_jobs_stage_details)
  case Nil
  then show ?case by simp
next
  case (Cons single rest)
  show ?case
  proof (cases "single = JNull")
    case True
    then show ?thesis by (simp add: try_bind_def)
  next
    case False
    with Cons.prems have "JNull \<in> set rest" by simp
    with Cons.IH obtain e where "over_stages entry rest = Inl e" by blast
    then show ?thesis by (simp add: try_bind_def split: sum.splits)
  qed
qed

text \<open>
  On a backend that knows job 22, \<^verbatim>\<open>main\<close> builds the report and compacts it. It prints
  the job ids and the status of the task request. In the compacted report the zero
  \<^verbatim>\<open>numFailedTasks\<close> and \<^verbatim>\<open>attemptId\<close> are gone, and the all-zero list under
  \<^verbatim>\<open>memoryBytesSpilled\<close> is kept as an empty list.
\<close>

lemma main_builds_report:
  "main backend_job_known =
     ([[Val (JList [JInt 22])], [Val (JInt 200)]],
      Inr (JDict
            [(''applicationId'', JStr ''local-1728540004669''),
             (''specificJobDetails'',
              JDict [(''jobId'', JInt 22), (''numFailedTasks'', JInt 0),
                     (''stageIds'', JList [JInt 5])]),
             (''stageDetails'',
              JList [JDict [(''job_id'', JInt 22),
                            (''stages'',
                             JList [JList [JDict [(''stageId'', JInt 5), (''attemptId'', JInt 0),
                                                  (''numTasks'', JInt 8)]]])]]),
             (''task_details'',
              JList [JDict [(''quantiles'', JList [JInt 0, JInt 1]),
                            (''memoryBytesSpilled'', JList [JInt 0, JInt 0])]])],
           JDict
            [(''applicationId'', JStr ''local-1728540004669''),
             (''specificJobDetails'',
              JDict [(''jobId'', JInt 22), (''stageIds'', JList [JInt 5])]),
             (''stageDetails'',
              JList [JDict [(''job_id'', JInt 22),
                            (''stages'',
                             JList [JList [JDict [(''stageId'', JInt 5),
                                                  (''numTasks'', JInt 8)]]])]]),
             (''task_details'',
              JList [JDict [(''quantiles'', JList [JInt 0, JInt 1]),
                            (''memoryBytesSpilled'', JList [])]])]))"
  by (simp add: main_def collect_and_compact_def get_spark_environment_def Let_def
        LocalSparkEnvironment_init_def kwargs_get_def
        Local_get_all_job_details_of_application_def Local_get_specific_job_details_def
        Local_get_stage_details_def Local_get_task_details_def backend_job_known_def
        stage_id_of_def stage_and_attempt_id_of_def response_json_def py_defs
        in_dict_sentinels_def in_list_sentinels_def)

section \<open>The environments: the claims\<close>

text \<open>
  C6: \<^verbatim>\<open>main\<close> on a backend to which job 22 is unknown. \<^verbatim>\<open>get_stage_details\<close> prints its
  message and returns \<^verbatim>\<open>None\<close>, as the claim says; the loop over
  \<^verbatim>\<open>all_jobs_stage_details\<close> then calls \<^verbatim>\<open>.get("stages")\<close> on that \<^verbatim>\<open>None\<close>, and
  \<^verbatim>\<open>main\<close> ends with \<^verbatim>\<open>AttributeError\<close>: no report is built.
\<close>

theorem main_aborts_on_unknown_job:
  "main backend_job_unknown =
     ([[Val (JList [JInt 22])],
       [Lit ''Job ID '', Val (JInt 22), Lit '' not found in application '',
        Val (JStr ''local-1728540004669''), Lit ''.'']],
      Inl AttributeError)"
  by (simp add: main_def collect_and_compact_def get_spark_environment_def Let_def
        LocalSparkEnvironment_init_def kwargs_get_def
        Local_get_all_job_details_of_application_def Local_get_specific_job_details_def
        Local_get_stage_details_def backend_job_unknown_def response_json_def py_defs)

text \<open>
  The local class implements the policy. When the job lookup yields a mapping with a list
  under \<^verbatim>\<open>stageIds\<close> and the transport answers every stage request,
  \<^verbatim>\<open>get_stage_details\<close> returns one entry per stage id, in order: the document of each
  stage answered with 200, and \<^verbatim>\<open>None\<close> as the marker of each stage answered with another
  status. The stages after a failed one are still fetched.
\<close>

lemma Local_get_stage_details_marks_failures:
  assumes job: "rq [Val (local_spark_ui_url L), Lit ''/applications/'',
                    Val (local_application_id L), Lit ''/jobs/'', Val job_id] [] = Inr jr"
    and ok: "status_code jr = 200" "body jr = Some (JDict kvs)"
    and ids: "map_of kvs ''stageIds'' = Some (JList sids)"
    and answered: "\<forall>sid \<in> set sids. \<exists>r.
          rq [Val (local_spark_ui_url L), Lit ''/applications/'', Val (local_application_id L),
              Lit ''/stages/'', Val sid] [] = Inr r
          \<and> (status_code r = 200 \<longrightarrow> body r \<noteq> None)"
  shows "\<exists>stages.
           Local_get_stage_details rq L job_id
             = ([], Inr (JDict [(''job_id'', job_id), (''stages'', JList stages)]))
           \<and> length stages = length sids
           \<and> (\<forall>i < length sids. \<exists>r.
                 rq [Val (local_spark_ui_url L), Lit ''/applications/'',
                     Val (local_application_id L), Lit ''/stages/'', Val (sids ! i)] [] = Inr r
                 \<and> (status_code r = 200 \<longrightarrow> body r = Some (stages ! i))
                 \<and> (status_code r \<noteq> 200 \<longrightarrow> stages ! i = JNull))"
proof -
  from ids have ne: "kvs \<noteq> []" by auto
  from job ok have found: "Local_get_specific_job_details rq L job_id = ([], Inr (JDict kvs))"
    by (simp add: Local_get_specific_job_details_def py_defs response_json_def)
  from answered Local_stage_loop_total [of sids rq L] obtain stages where
      loop: "Local_stage_loop rq L sids = ([], Inr stages)"
      and len: "length stages = length sids"
      and each: "\<forall>i < length sids. \<exists>r.
                 rq [Val (local_spark_ui_url L), Lit ''/applications/'',
                     Val (local_application_id L), Lit ''/stages/'', Val (sids ! i)] [] = Inr r
                 \<and> (status_code r = 200 \<longrightarrow> body r = Some (stages ! i))
                 \<and> (status_code r \<noteq> 200 \<longrightarrow> stages ! i = JNull)"
    by blast
  have "Local_get_stage_details rq L job_id
          = ([], Inr (JDict [(''job_id'', job_id), (''stages'', JList stages)]))"
    using ids ne found loop by (simp add: Local_get_stage_details_def py_defs)
  with len each show ?thesis by blast
qed

text \<open>
  On \<open>backend_local_stages\<close> the local class records \<^verbatim>\<open>None\<close> for stage 1 and goes on to
  fetch stage 2.
\<close>

lemma Local_records_failed_stage:
  "Local_get_stage_details backend_local_stages
     (LocalSparkEnvironment_init (JStr ''http://localhost:4040/api/v1'') (JStr ''app-1''))
     (JInt 7)
   = ([], Inr (JDict [(''job_id'', JInt 7),
                      (''stages'', JList [JNull,
                         JList [JDict [(''stageId'', JInt 2), (''attemptId'', JInt 0)]]])]))"
  by (simp add: Local_get_stage_details_def Local_get_specific_job_details_def
        backend_local_stages_def LocalSparkEnvironment_init_def response_json_def py_defs)

text \<open>
  The loop of the non-Databricks class calls \<^verbatim>\<open>.json()\<close> on every stage response without
  looking at its status. A stage whose response is not JSON ends the loop with
  \<^verbatim>\<open>JSONDecodeError\<close>, whatever stages follow; a failed stage whose response is JSON is
  appended like a served one, with no marker.
\<close>

lemma NonDatabricks_stage_loop_aborts:
  assumes "rq [Val (spark_master_url self), Lit ''/applications/'',
               Val (NonDatabricksSparkEnvironment_application_id self),
               Lit ''/stages/'', Val stage_id] [] = Inr r"
    and "body r = None"
  shows "NonDatabricks_stage_loop rq self (stage_id # rest) = ([], Inl JSONDecodeError)"
  using assms by (simp add: response_json_def py_defs)

lemma NonDatabricks_stage_loop_no_marker:
  assumes "rq [Val (spark_master_url self), Lit ''/applications/'',
               Val (NonDatabricksSparkEnvironment_application_id self),
               Lit ''/stages/'', Val stage_id] [] = Inr r"
    and "body r = Some error_document"
  shows "NonDatabricks_stage_loop rq self [stage_id] = ([], Inr [error_document])"
  using assms by (simp add: response_json_def py_defs)

text \<open>
  The loop of the Databricks class never gets past its first stage: the fetch raises, or
  it returns a document and \<^verbatim>\<open>.json()\<close> on that document raises \<^verbatim>\<open>AttributeError\<close>.
\<close>

lemma Databricks_stage_loop_raises:
  "\<exists>out e. Databricks_stage_loop rq self (stage_id # rest) = (out, Inl e)"
  by (auto simp: databricks_api_get_def py_defs split: sum.splits prod.splits)

text \<open>
  C7: the non-Databricks class on \<open>backend_local_stages\<close>, the backend on which the local
  class returns \<^verbatim>\<open>[None, stage 2]\<close>. Stage 1 is answered with 404 and a body that is not
  JSON; \<^verbatim>\<open>get_stage_details\<close> ends with \<^verbatim>\<open>JSONDecodeError\<close>: no marker is recorded for
  stage 1 and stage 2, which the backend serves, is not collected.
\<close>

theorem NonDatabricks_stage_failure_aborts:
  "NonDatabricks_get_stage_details backend_local_stages
     (NonDatabricksSparkEnvironment_init (JStr ''http://localhost:4040/api/v1'') (JStr ''app-1''))
     (JInt 7)
   = ([], Inl JSONDecodeError)"
  by (simp add: NonDatabricks_get_stage_details_def NonDatabricks_get_specific_job_details_def
        backend_local_stages_def NonDatabricksSparkEnvironment_init_def response_json_def
        py_defs)

text \<open>
  What \<^verbatim>\<open>get_application_id\<close> does when the listing request is answered with 200. The
  local and the non-Databricks class guard the listing itself (\<^verbatim>\<open>if applications\<close>):
  they return \<^verbatim>\<open>None\<close> for the empty list and the \<^verbatim>\<open>id\<close> of the entry at index 0
  otherwise. The Databricks class returns the \<^verbatim>\<open>job_id\<close> of the entry at index 0 of the
  document's \<^verbatim>\<open>jobs\<close> when there is one; its guard (\<^verbatim>\<open>if jobs\<close>) is on the response
  document. Each class stores what it returns in \<^verbatim>\<open>application_id\<close>.
\<close>

lemma get_application_id_index_0:
  "(rq [Val (local_spark_ui_url L), Lit ''/applications''] [] = Inr r
    \<and> status_code r = 200 \<and> body r = Some (JList apps)
    \<longrightarrow> (apps = [] \<longrightarrow>
           Local_get_application_id rq L = ([], Inr (JNull, L\<lparr>application_id := JNull\<rparr>)))
        \<and> (\<forall>kvs rest i. apps = JDict kvs # rest \<and> map_of kvs ''id'' = Some i \<longrightarrow>
             Local_get_application_id rq L = ([], Inr (i, L\<lparr>application_id := i\<rparr>))))
   \<and> (rq [Val (spark_master_url N), Lit ''/applications''] [] = Inr r'
       \<and> status_code r' = 200 \<and> body r' = Some (JList apps')
       \<longrightarrow> (apps' = [] \<longrightarrow>
              NonDatabricks_get_application_id rq N
                = ([], Inr (JNull, N\<lparr>application_id := JNull\<rparr>)))
           \<and> (\<forall>kvs rest i. apps' = JDict kvs # rest \<and> map_of kvs ''id'' = Some i \<longrightarrow>
                NonDatabricks_get_application_id rq N
                  = ([], Inr (i, N\<lparr>application_id := i\<rparr>))))
   \<and> (rq [Val (databricks_instance D), Lit ''/api/2.0/jobs/list'']
          [(''Authorization'', [Lit ''Bearer '', Val (databricks_token D)])] = Inr r''
       \<and> status_code r'' = 200 \<and> body r'' = Some jobs
       \<longrightarrow> (\<not> truthy jobs \<longrightarrow>
              Databricks_get_application_id rq D
                = ([], Inr (JNull, D\<lparr>application_id := JNull\<rparr>)))
           \<and> (\<forall>kvs entry rest j.
                 jobs = JDict kvs \<and> map_of kvs ''jobs'' = Some (JList (JDict entry # rest))
                 \<and> map_of entry ''job_id'' = Some j \<longrightarrow>
                 Databricks_get_application_id rq D
                   = ([], Inr (j, D\<lparr>application_id := j\<rparr>))))"
proof (intro conjI impI allI)
  assume "rq [Val (local_spark_ui_url L), Lit ''/applications''] [] = Inr r
    \<and> status_code r = 200 \<and> body r = Some (JList apps)" and "apps = []"
  then show "Local_get_application_id rq L = ([], Inr (JNull, L\<lparr>application_id := JNull\<rparr>))"
    by (simp add: Local_get_application_id_def response_json_def py_defs)
next
  fix kvs rest i
  assume "rq [Val (local_spark_ui_url L), Lit ''/applications''] [] = Inr r
    \<and> status_code r = 200 \<and> body r = Some (JList apps)"
    and "apps = JDict kvs # rest \<and> map_of kvs ''id'' = Some i"
  then show "Local_get_application_id rq L = ([], Inr (i, L\<lparr>application_id := i\<rparr>))"
    by (simp add: Local_get_application_id_def response_json_def py_defs)
next
  assume "rq [Val (spark_master_url N), Lit ''/applications''] [] = Inr r'
       \<and> status_code r' = 200 \<and> body r' = Some (JList apps')" and "apps' = []"
  then show "NonDatabricks_get_application_id rq N
               = ([], Inr (JNull, N\<lparr>application_id := JNull\<rparr>))"
    by (simp add: NonDatabricks_get_application_id_def response_json_def py_defs)
next
  fix kvs rest i
  assume "rq [Val (spark_master_url N), Lit ''/applications''] [] = Inr r'
       \<and> status_code r' = 200 \<and> body r' = Some (JList apps')"
    and "apps' = JDict kvs # rest \<and> map_of kvs ''id'' = Some i"
  then show "NonDatabricks_get_application_id rq N = ([], Inr (i, N\<lparr>application_id := i\<rparr>))"
    by (simp add: NonDatabricks_get_application_id_def response_json_def py_defs)
next
  assume "rq [Val (databricks_instance D), Lit ''/api/2.0/jobs/list'']
          [(''Authorization'', [Lit ''Bearer '', Val (databricks_token D)])] = Inr r''
       \<and> status_code r'' = 200 \<and> body r'' = Some jobs" and "\<not> truthy jobs"
  then show "Databricks_get_application_id rq D
               = ([], Inr (JNull, D\<lparr>application_id := JNull\<rparr>))"
    by (simp add: Databricks_get_application_id_def databricks_api_get_def response_json_def
          py_defs)
next
  fix kvs entry rest j
  assume h: "rq [Val (databricks_instance D), Lit ''/api/2.0/jobs/list'']
          [(''Authorization'', [Lit ''Bearer '', Val (databricks_token D)])] = Inr r''
       \<and> status_code r'' = 200 \<and> body r'' = Some jobs"
    and j: "jobs = JDict kvs \<and> map_of kvs ''jobs'' = Some (JList (JDict entry # rest))
                 \<and> map_of entry ''job_id'' = Some j"
  from j have "kvs \<noteq> []" by auto
  with h j show "Databricks_get_application_id rq D = ([], Inr (j, D\<lparr>application_id := j\<rparr>))"
    by (simp add: Databricks_get_application_id_def databricks_api_get_def response_json_def
          py_defs)
qed

lemma Local_get_application_id_example:
  "Local_get_application_id backend_one_application
     (LocalSparkEnvironment_init (JStr ''http://localhost:4040/api/v1'') JNull)
   = ([], Inr (JStr ''app-1'',
               \<lparr>application_id = JStr ''app-1'',
                local_spark_ui_url = JStr ''http://localhost:4040/api/v1'',
                local_application_id = JNull\<rparr>))"
proof -
  let ?L = "LocalSparkEnvironment_init (JStr ''http://localhost:4040/api/v1'') JNull"
  let ?apps = "[JDict [(''id'', JStr ''app-1'')]]"
  let ?r = "\<lparr>status_code = 200, body = Some (JList ?apps)\<rparr>"
  have prem: "backend_one_application [Val (local_spark_ui_url ?L), Lit ''/applications''] []
      = Inr ?r \<and> status_code ?r = 200 \<and> body ?r = Some (JList ?apps)"
    by (simp add: backend_one_application_def)
  have first: "?apps = JDict [(''id'', JStr ''app-1'')] # []
      \<and> map_of [(''id'', JStr ''app-1'')] ''id'' = Some (JStr ''app-1'')"
    by simp
  note use = get_application_id_index_0
    [where rq = backend_one_application and L = ?L and r = ?r and apps = ?apps,
     THEN conjunct1, THEN mp, OF prem, THEN conjunct2, rule_format, OF first]
  from use show ?thesis
    by (simp add: LocalSparkEnvironment_init_def)
qed

text \<open>
  C8: the Databricks class on a backend whose job listing is empty, \<^verbatim>\<open>{"jobs": []}\<close>.
  The document is not empty, so the guard \<^verbatim>\<open>if jobs\<close> passes and \<^verbatim>\<open>jobs['jobs'][0]\<close>
  raises \<^verbatim>\<open>IndexError\<close>: \<^verbatim>\<open>get_application_id\<close> does not return \<^verbatim>\<open>None\<close>, and nothing is
  stored in \<^verbatim>\<open>application_id\<close>.
\<close>

theorem Databricks_empty_listing_raises:
  "Databricks_get_application_id backend_empty_jobs
     (DatabricksSparkEnvironment_init (JStr ''token'') (JStr ''https://dbc.example'') JNull)
   = ([], Inl IndexError)"
  by (simp add: Databricks_get_application_id_def databricks_api_get_def
        backend_empty_jobs_def response_json_def py_defs)

text \<open>
  The factory called for the local kind with no connection parameter at all returns a
  local environment whose URL is \<^verbatim>\<open>None\<close>; nothing fails.
\<close>

theorem factory_accepts_missing_field:
  "get_spark_environment False True Map.empty
   = Local \<lparr>application_id = JNull, local_spark_ui_url = JNull, local_application_id = JNull\<rparr>"
  by (simp add: get_spark_environment_def LocalSparkEnvironment_init_def kwargs_get_def)

text \<open>
  C9, as the code has it: the factory validates nothing. Called with connection parameters
  that miss a field of the chosen kind, it returns an environment of that kind with the
  field set to \<^verbatim>\<open>None\<close>. The code has no \<^verbatim>\<open>ConfigurationError\<close>, and the factory makes no
  request: a missing field is first read when a method builds a URL from it.
\<close>

theorem factory_stores_None_for_missing_field:
  "(kwargs ''local_spark_ui_url'' = None \<longrightarrow>
      (\<exists>self. get_spark_environment is_databricks True kwargs = Local self
         \<and> local_spark_ui_url self = JNull))
   \<and> (kwargs ''databricks_token'' = None \<longrightarrow>
        (\<exists>self. get_spark_environment True False kwargs = Databricks self
           \<and> databricks_token self = JNull))
   \<and> (kwargs ''databricks_instance'' = None \<longrightarrow>
        (\<exists>self. get_spark_environment True False kwargs = Databricks self
           \<and> databricks_instance self = JNull))
   \<and> (kwargs ''spark_master_url'' = None \<longrightarrow>
        (\<exists>self. get_spark_environment False False kwargs = NonDatabricks self
           \<and> spark_master_url self = JNull))"
  by (simp add: get_spark_environment_def LocalSparkEnvironment_init_def
        DatabricksSparkEnvironment_init_def NonDatabricksSparkEnvironment_init_def kwargs_get_def)

theorem factory_stores_None_for_missing_field_witness:
  "get_spark_environment True False [''databricks_instance'' \<mapsto> JStr ''https://dbc.example'']
   = Databricks \<lparr>application_id = JNull, databricks_token = JNull,
                  databricks_instance = JStr ''https://dbc.example'',
                  databricks_application_id = JNull\<rparr>"
proof -
  let ?kw = "[''databricks_instance'' \<mapsto> JStr ''https://dbc.example'']"
  have missing: "?kw ''databricks_token'' = None" by simp
  from factory_stores_None_for_missing_field
    [of ?kw, THEN conjunct2, THEN conjunct1, THEN mp, OF missing]
  obtain self where env: "get_spark_environment True False ?kw = Databricks self"
    and token: "databricks_token self = JNull"
    by blast
  have "get_spark_environment True False ?kw
      = Databricks (DatabricksSparkEnvironment_init JNull (JStr ''https://dbc.example'') JNull)"
    by (simp add: get_spark_environment_def kwargs_get_def)
  with env token show ?thesis
    by (simp add: DatabricksSparkEnvironment_init_def)
qed

text \<open>
  C10: with \<^verbatim>\<open>is_local\<close> true the factory returns a \<^verbatim>\<open>LocalSparkEnvironment\<close>, built from
  the local keywords, whatever \<^verbatim>\<open>is_databricks\<close> is.
\<close>

theorem factory_is_local_takes_precedence:
  "get_spark_environment is_databricks True kwargs
   = Local (LocalSparkEnvironment_init (kwargs_get kwargs ''local_spark_ui_url'')
              (kwargs_get kwargs ''local_application_id''))"
  by (simp add: get_spark_environment_def)

end
